theory Spec2Isabelle
  imports Main
begin

section \<open>JavaScript values\<close>

text \<open>
  The values the fault pipeline handles at run time: \<open>err\<close> is typed \<open>unknown\<close>,
  \<open>details\<close> is typed \<open>unknown\<close>, and extra properties of foreign errors
  (\<open>code\<close>, \<open>statusCode\<close>, \<open>body\<close>, \<open>keyPattern\<close>) are read dynamically.
  Numbers are the integers (no status or driver code of the program is fractional);
  an object is its list of own properties in insertion order.
\<close>

datatype jsval =
    JUndefined
  | JNull
  | JBool bool
  | JNum int
  | JStr string
  | JArr "jsval list"
  | JObj "(string \<times> jsval) list"

text \<open>JavaScript truthiness, as used by \<open>if (match)\<close> and \<open>a || b\<close>.\<close>

fun truthy :: "jsval \<Rightarrow> bool" where
  "truthy JUndefined = False"
| "truthy JNull = False"
| "truthy (JBool b) = b"
| "truthy (JNum n) = (n \<noteq> 0)"
| "truthy (JStr s) = (s \<noteq> [])"
| "truthy (JArr _) = True"
| "truthy (JObj _) = True"

text \<open>\<open>k in o\<close> and \<open>o.k\<close> on a property list; a missing property reads \<open>undefined\<close>.\<close>

definition has_prop :: "string \<Rightarrow> (string \<times> jsval) list \<Rightarrow> bool" where
  "has_prop k ps = (map_of ps k \<noteq> None)"

definition get_prop :: "string \<Rightarrow> (string \<times> jsval) list \<Rightarrow> jsval" where
  "get_prop k ps = (case map_of ps k of None \<Rightarrow> JUndefined | Some v \<Rightarrow> v)"

text \<open>
  Writing a property: an existing key keeps its position and takes the new value,
  a new key is appended.
\<close>

fun set_prop :: "string \<Rightarrow> jsval \<Rightarrow> (string \<times> jsval) list \<Rightarrow> (string \<times> jsval) list" where
  "set_prop k v [] = [(k, v)]"
| "set_prop k v ((k', v') # ps) =
     (if k = k' then (k, v) # ps else (k', v') # set_prop k v ps)"

text \<open>Decimal rendering of an array index, as a property key.\<close>

definition digit_char :: "nat \<Rightarrow> char" where
  "digit_char d = char_of (48 + d)"

fun show_nat :: "nat \<Rightarrow> string" where
  "show_nat n = (if n < 10 then [digit_char n] else show_nat (n div 10) @ [digit_char (n mod 10)])"

declare show_nat.simps [simp del]

text \<open>
  Object spread \<open>{...v}\<close>: the own enumerable properties of \<open>v\<close>. An object gives its
  properties, an array and a string give their elements under the index keys, every
  other value gives nothing.
\<close>

fun spread_props :: "jsval \<Rightarrow> (string \<times> jsval) list" where
  "spread_props (JObj ps) = ps"
| "spread_props (JArr vs) = map (\<lambda>i. (show_nat i, vs ! i)) [0..<length vs]"
| "spread_props (JStr s) = map (\<lambda>i. (show_nat i, JStr [s ! i])) [0..<length s]"
| "spread_props _ = []"

section \<open>Error codes and HTTP statuses\<close>

text \<open>
  \<open>ErrorCodeEnum\<close> (common/enums/error-code.enum.ts): an object whose every member is
  the string of its own key.
\<close>

abbreviation USR_400 :: string where "USR_400 \<equiv> ''USR_400''"
abbreviation USR_404 :: string where "USR_404 \<equiv> ''USR_404''"
abbreviation USR_405 :: string where "USR_405 \<equiv> ''USR_405''"
abbreviation USR_409 :: string where "USR_409 \<equiv> ''USR_409''"
abbreviation USR_422 :: string where "USR_422 \<equiv> ''USR_422''"
abbreviation AUTH_401 :: string where "AUTH_401 \<equiv> ''AUTH_401''"
abbreviation AUTH_403 :: string where "AUTH_403 \<equiv> ''AUTH_403''"
abbreviation AUTH_USER_NOT_FOUND :: string where "AUTH_USER_NOT_FOUND \<equiv> ''AUTH_USER_NOT_FOUND''"
abbreviation AUTH_EMAIL_ALREADY_EXISTS :: string where
  "AUTH_EMAIL_ALREADY_EXISTS \<equiv> ''AUTH_EMAIL_ALREADY_EXISTS''"
abbreviation AUTH_INVALID_TOKEN :: string where "AUTH_INVALID_TOKEN \<equiv> ''AUTH_INVALID_TOKEN''"
abbreviation AUTH_TOKEN_NOT_FOUND :: string where "AUTH_TOKEN_NOT_FOUND \<equiv> ''AUTH_TOKEN_NOT_FOUND''"
abbreviation AUTH_TOKEN_EXPIRED :: string where "AUTH_TOKEN_EXPIRED \<equiv> ''AUTH_TOKEN_EXPIRED''"
abbreviation AUTH_INVALID_CREDENTIALS :: string where
  "AUTH_INVALID_CREDENTIALS \<equiv> ''AUTH_INVALID_CREDENTIALS''"
abbreviation AUTH_ACCOUNT_LOCKED :: string where "AUTH_ACCOUNT_LOCKED \<equiv> ''AUTH_ACCOUNT_LOCKED''"
abbreviation AUTH_ACCOUNT_DISABLED :: string where "AUTH_ACCOUNT_DISABLED \<equiv> ''AUTH_ACCOUNT_DISABLED''"
abbreviation AUTH_INSUFFICIENT_PERMISSIONS :: string where
  "AUTH_INSUFFICIENT_PERMISSIONS \<equiv> ''AUTH_INSUFFICIENT_PERMISSIONS''"
abbreviation VAL_400 :: string where "VAL_400 \<equiv> ''VAL_400''"
abbreviation VAL_REQUIRED_FIELD :: string where "VAL_REQUIRED_FIELD \<equiv> ''VAL_REQUIRED_FIELD''"
abbreviation VAL_INVALID_FORMAT :: string where "VAL_INVALID_FORMAT \<equiv> ''VAL_INVALID_FORMAT''"
abbreviation VAL_INVALID_TYPE :: string where "VAL_INVALID_TYPE \<equiv> ''VAL_INVALID_TYPE''"
abbreviation VAL_OUT_OF_RANGE :: string where "VAL_OUT_OF_RANGE \<equiv> ''VAL_OUT_OF_RANGE''"
abbreviation VAL_DUPLICATE_VALUE :: string where "VAL_DUPLICATE_VALUE \<equiv> ''VAL_DUPLICATE_VALUE''"
abbreviation RATE_429 :: string where "RATE_429 \<equiv> ''RATE_429''"
abbreviation RATE_LIMIT_EXCEEDED :: string where "RATE_LIMIT_EXCEEDED \<equiv> ''RATE_LIMIT_EXCEEDED''"
abbreviation DB_500 :: string where "DB_500 \<equiv> ''DB_500''"
abbreviation DB_CONNECTION_ERROR :: string where "DB_CONNECTION_ERROR \<equiv> ''DB_CONNECTION_ERROR''"
abbreviation DB_QUERY_ERROR :: string where "DB_QUERY_ERROR \<equiv> ''DB_QUERY_ERROR''"
abbreviation DB_TRANSACTION_ERROR :: string where "DB_TRANSACTION_ERROR \<equiv> ''DB_TRANSACTION_ERROR''"
abbreviation DB_DUPLICATE_KEY :: string where "DB_DUPLICATE_KEY \<equiv> ''DB_DUPLICATE_KEY''"
abbreviation DB_VALIDATION_ERROR :: string where "DB_VALIDATION_ERROR \<equiv> ''DB_VALIDATION_ERROR''"
abbreviation DB_NOT_FOUND :: string where "DB_NOT_FOUND \<equiv> ''DB_NOT_FOUND''"
abbreviation EXT_502 :: string where "EXT_502 \<equiv> ''EXT_502''"
abbreviation EXT_503 :: string where "EXT_503 \<equiv> ''EXT_503''"
abbreviation EXT_504 :: string where "EXT_504 \<equiv> ''EXT_504''"
abbreviation EXT_API_ERROR :: string where "EXT_API_ERROR \<equiv> ''EXT_API_ERROR''"
abbreviation EXT_SERVICE_UNAVAILABLE :: string where
  "EXT_SERVICE_UNAVAILABLE \<equiv> ''EXT_SERVICE_UNAVAILABLE''"
abbreviation EXT_TIMEOUT :: string where "EXT_TIMEOUT \<equiv> ''EXT_TIMEOUT''"
abbreviation SRV_500 :: string where "SRV_500 \<equiv> ''SRV_500''"
abbreviation SRV_501 :: string where "SRV_501 \<equiv> ''SRV_501''"
abbreviation SRV_INTERNAL_ERROR :: string where "SRV_INTERNAL_ERROR \<equiv> ''SRV_INTERNAL_ERROR''"
abbreviation SRV_UNHANDLED_ERROR :: string where "SRV_UNHANDLED_ERROR \<equiv> ''SRV_UNHANDLED_ERROR''"
abbreviation FILE_UPLOAD_ERROR :: string where "FILE_UPLOAD_ERROR \<equiv> ''FILE_UPLOAD_ERROR''"
abbreviation FILE_TOO_LARGE :: string where "FILE_TOO_LARGE \<equiv> ''FILE_TOO_LARGE''"
abbreviation FILE_INVALID_TYPE :: string where "FILE_INVALID_TYPE \<equiv> ''FILE_INVALID_TYPE''"
abbreviation FILE_UPLOAD_FAILED :: string where "FILE_UPLOAD_FAILED \<equiv> ''FILE_UPLOAD_FAILED''"

text \<open>
  Modelled from the spec: the table \<open>HTTPSTATUS\<close> of configs/http.config.ts, which the
  sources import but do not contain. The members are the ones the sources name; the
  values of the error statuses are those of the table in section 4.1 of the
  specification, and \<open>OK\<close>, which index.ts sends from its two routes, is the HTTP
  success status.
\<close>

definition HTTPSTATUS_OK :: int where [simp]: "HTTPSTATUS_OK = 200"
definition HTTPSTATUS_BAD_REQUEST :: int where [simp]: "HTTPSTATUS_BAD_REQUEST = 400"
definition HTTPSTATUS_UNAUTHORIZED :: int where [simp]: "HTTPSTATUS_UNAUTHORIZED = 401"
definition HTTPSTATUS_FORBIDDEN :: int where [simp]: "HTTPSTATUS_FORBIDDEN = 403"
definition HTTPSTATUS_NOT_FOUND :: int where [simp]: "HTTPSTATUS_NOT_FOUND = 404"
definition HTTPSTATUS_METHOD_NOT_ALLOWED :: int where [simp]: "HTTPSTATUS_METHOD_NOT_ALLOWED = 405"
definition HTTPSTATUS_CONFLICT :: int where [simp]: "HTTPSTATUS_CONFLICT = 409"
definition HTTPSTATUS_UNPROCESSABLE_ENTITY :: int where [simp]: "HTTPSTATUS_UNPROCESSABLE_ENTITY = 422"
definition HTTPSTATUS_TOO_MANY_REQUESTS :: int where [simp]: "HTTPSTATUS_TOO_MANY_REQUESTS = 429"
definition HTTPSTATUS_INTERNAL_SERVER_ERROR :: int where [simp]: "HTTPSTATUS_INTERNAL_SERVER_ERROR = 500"
definition HTTPSTATUS_NOT_IMPLEMENTED :: int where [simp]: "HTTPSTATUS_NOT_IMPLEMENTED = 501"
definition HTTPSTATUS_BAD_GATEWAY :: int where [simp]: "HTTPSTATUS_BAD_GATEWAY = 502"
definition HTTPSTATUS_SERVICE_UNAVAILABLE :: int where [simp]: "HTTPSTATUS_SERVICE_UNAVAILABLE = 503"
definition HTTPSTATUS_GATEWAY_TIMEOUT :: int where [simp]: "HTTPSTATUS_GATEWAY_TIMEOUT = 504"

section \<open>Errors\<close>

text \<open>
  An instance of the built-in \<open>Error\<close>: its name, message and stack (\<open>None\<close> when
  the property is undefined), and whatever further properties the raiser attached.
\<close>

record js_error =
  err_name :: string
  err_message :: string
  err_stack :: "string option"
  err_props :: "(string \<times> jsval) list"

text \<open>\<open>class AppError extends Error\<close> (common/utils/app-error.ts).\<close>

record app_error = js_error +
  statusCode :: int
  app_errorCode :: string
  app_details :: jsval
  isOperational :: bool
  app_timestamp :: string

text \<open>
  The constructor of \<open>AppError\<close>. \<open>cname\<close> is \<open>this.constructor.name\<close>, \<open>now\<close> the
  value of \<open>new Date().toISOString()\<close> and \<open>stk\<close> the trace that
  \<open>Error.captureStackTrace\<close> stores. An argument that is \<open>None\<close> was omitted (or
  passed as \<open>undefined\<close>) and takes the parameter's default.
\<close>

definition AppError ::
  "string \<Rightarrow> string \<Rightarrow> string \<Rightarrow> string \<Rightarrow> int option \<Rightarrow> string option \<Rightarrow> jsval \<Rightarrow> app_error" where
  "AppError cname now stk msg sc ec det =
     \<lparr> err_name = cname,
       err_message = msg,
       err_stack = Some stk,
       err_props = [],
       statusCode = (case sc of None \<Rightarrow> HTTPSTATUS_INTERNAL_SERVER_ERROR | Some s \<Rightarrow> s),
       app_errorCode = (case ec of None \<Rightarrow> SRV_500 | Some c \<Rightarrow> c),
       app_details = det,
       isOperational = True,
       app_timestamp = now \<rparr>"

text \<open>A parameter with a default value.\<close>

definition or_default :: "'a option \<Rightarrow> 'a \<Rightarrow> 'a" where
  "or_default a d = (case a of None \<Rightarrow> d | Some x \<Rightarrow> x)"

definition BadRequestException ::
  "string \<Rightarrow> string \<Rightarrow> string option \<Rightarrow> string option \<Rightarrow> jsval \<Rightarrow> app_error" where
  "BadRequestException now stk msg ec det =
     AppError ''BadRequestException'' now stk
       (or_default msg ''The request is invalid or malformed'')
       (Some HTTPSTATUS_BAD_REQUEST) (Some (or_default ec USR_400)) det"

definition UnauthorizedException ::
  "string \<Rightarrow> string \<Rightarrow> string option \<Rightarrow> string option \<Rightarrow> jsval \<Rightarrow> app_error" where
  "UnauthorizedException now stk msg ec det =
     AppError ''UnauthorizedException'' now stk
       (or_default msg ''Authentication required. Please provide valid credentials'')
       (Some HTTPSTATUS_UNAUTHORIZED) (Some (or_default ec AUTH_401)) det"

definition ForbiddenException ::
  "string \<Rightarrow> string \<Rightarrow> string option \<Rightarrow> string option \<Rightarrow> jsval \<Rightarrow> app_error" where
  "ForbiddenException now stk msg ec det =
     AppError ''ForbiddenException'' now stk
       (or_default msg ''You do not have permission to access this resource'')
       (Some HTTPSTATUS_FORBIDDEN) (Some (or_default ec AUTH_403)) det"

definition NotFoundException ::
  "string \<Rightarrow> string \<Rightarrow> string option \<Rightarrow> string option \<Rightarrow> jsval \<Rightarrow> app_error" where
  "NotFoundException now stk msg ec det =
     AppError ''NotFoundException'' now stk
       (or_default msg ''The requested resource was not found'')
       (Some HTTPSTATUS_NOT_FOUND) (Some (or_default ec USR_404)) det"

definition MethodNotAllowedException ::
  "string \<Rightarrow> string \<Rightarrow> string option \<Rightarrow> string option \<Rightarrow> jsval \<Rightarrow> app_error" where
  "MethodNotAllowedException now stk msg ec det =
     AppError ''MethodNotAllowedException'' now stk
       (or_default msg ''The HTTP method is not allowed for this endpoint'')
       (Some HTTPSTATUS_METHOD_NOT_ALLOWED) (Some (or_default ec USR_405)) det"

definition ConflictException ::
  "string \<Rightarrow> string \<Rightarrow> string option \<Rightarrow> string option \<Rightarrow> jsval \<Rightarrow> app_error" where
  "ConflictException now stk msg ec det =
     AppError ''ConflictException'' now stk
       (or_default msg ''The request conflicts with the current state of the resource'')
       (Some HTTPSTATUS_CONFLICT) (Some (or_default ec USR_409)) det"

definition UnprocessableEntityException ::
  "string \<Rightarrow> string \<Rightarrow> string option \<Rightarrow> string option \<Rightarrow> jsval \<Rightarrow> app_error" where
  "UnprocessableEntityException now stk msg ec det =
     AppError ''UnprocessableEntityException'' now stk
       (or_default msg ''The request is well-formed but contains semantic errors'')
       (Some HTTPSTATUS_UNPROCESSABLE_ENTITY) (Some (or_default ec USR_422)) det"

definition TooManyRequestsException ::
  "string \<Rightarrow> string \<Rightarrow> string option \<Rightarrow> string option \<Rightarrow> jsval \<Rightarrow> app_error" where
  "TooManyRequestsException now stk msg ec det =
     AppError ''TooManyRequestsException'' now stk
       (or_default msg ''Too many requests. Please try again later'')
       (Some HTTPSTATUS_TOO_MANY_REQUESTS) (Some (or_default ec RATE_429)) det"

definition ValidationException ::
  "string \<Rightarrow> string \<Rightarrow> string option \<Rightarrow> string option \<Rightarrow> jsval \<Rightarrow> app_error" where
  "ValidationException now stk msg ec det =
     AppError ''ValidationException'' now stk
       (or_default msg ''Validation failed. Please check your input'')
       (Some HTTPSTATUS_BAD_REQUEST) (Some (or_default ec VAL_400)) det"

definition AuthenticationException ::
  "string \<Rightarrow> string \<Rightarrow> string option \<Rightarrow> string option \<Rightarrow> jsval \<Rightarrow> app_error" where
  "AuthenticationException now stk msg ec det =
     AppError ''AuthenticationException'' now stk
       (or_default msg ''Authentication failed. Please check your credentials'')
       (Some HTTPSTATUS_UNAUTHORIZED) (Some (or_default ec AUTH_401)) det"

definition AuthorizationException ::
  "string \<Rightarrow> string \<Rightarrow> string option \<Rightarrow> string option \<Rightarrow> jsval \<Rightarrow> app_error" where
  "AuthorizationException now stk msg ec det =
     AppError ''AuthorizationException'' now stk
       (or_default msg ''You do not have permission to perform this action'')
       (Some HTTPSTATUS_FORBIDDEN) (Some (or_default ec AUTH_403)) det"

definition DatabaseException ::
  "string \<Rightarrow> string \<Rightarrow> string option \<Rightarrow> string option \<Rightarrow> jsval \<Rightarrow> app_error" where
  "DatabaseException now stk msg ec det =
     AppError ''DatabaseException'' now stk
       (or_default msg ''A database error occurred. Please try again later'')
       (Some HTTPSTATUS_INTERNAL_SERVER_ERROR) (Some (or_default ec DB_500)) det"

definition DatabaseConnectionException ::
  "string \<Rightarrow> string \<Rightarrow> string option \<Rightarrow> string option \<Rightarrow> jsval \<Rightarrow> app_error" where
  "DatabaseConnectionException now stk msg ec det =
     AppError ''DatabaseConnectionException'' now stk
       (or_default msg ''Unable to connect to the database. Please try again later'')
       (Some HTTPSTATUS_SERVICE_UNAVAILABLE) (Some (or_default ec DB_CONNECTION_ERROR)) det"

definition ExternalServiceException ::
  "string \<Rightarrow> string \<Rightarrow> string option \<Rightarrow> string option \<Rightarrow> jsval \<Rightarrow> app_error" where
  "ExternalServiceException now stk msg ec det =
     AppError ''ExternalServiceException'' now stk
       (or_default msg ''An external service error occurred. Please try again later'')
       (Some HTTPSTATUS_BAD_GATEWAY) (Some (or_default ec EXT_API_ERROR)) det"

definition ServiceUnavailableException ::
  "string \<Rightarrow> string \<Rightarrow> string option \<Rightarrow> string option \<Rightarrow> jsval \<Rightarrow> app_error" where
  "ServiceUnavailableException now stk msg ec det =
     AppError ''ServiceUnavailableException'' now stk
       (or_default msg ''The service is temporarily unavailable. Please try again later'')
       (Some HTTPSTATUS_SERVICE_UNAVAILABLE) (Some (or_default ec EXT_503)) det"

definition GatewayTimeoutException ::
  "string \<Rightarrow> string \<Rightarrow> string option \<Rightarrow> string option \<Rightarrow> jsval \<Rightarrow> app_error" where
  "GatewayTimeoutException now stk msg ec det =
     AppError ''GatewayTimeoutException'' now stk
       (or_default msg ''The request timed out. Please try again later'')
       (Some HTTPSTATUS_GATEWAY_TIMEOUT) (Some (or_default ec EXT_504)) det"

definition InternalServerException ::
  "string \<Rightarrow> string \<Rightarrow> string option \<Rightarrow> string option \<Rightarrow> jsval \<Rightarrow> app_error" where
  "InternalServerException now stk msg ec det =
     AppError ''InternalServerException'' now stk
       (or_default msg ''An internal server error occurred. Please try again later'')
       (Some HTTPSTATUS_INTERNAL_SERVER_ERROR) (Some (or_default ec SRV_500)) det"

definition NotImplementedException ::
  "string \<Rightarrow> string \<Rightarrow> string option \<Rightarrow> string option \<Rightarrow> jsval \<Rightarrow> app_error" where
  "NotImplementedException now stk msg ec det =
     AppError ''NotImplementedException'' now stk
       (or_default msg ''This feature is not yet implemented'')
       (Some HTTPSTATUS_NOT_IMPLEMENTED) (Some (or_default ec SRV_501)) det"

text \<open>
  The errors of the data layer that the handler tests with \<open>instanceof\<close>:
  \<open>mongoose.Error.ValidationError\<close>, whose \<open>errors\<close> maps a field to an error with a
  \<open>path\<close> and a \<open>message\<close> (kept in the order \<open>Object.values\<close> lists them), and
  \<open>mongoose.Error.CastError\<close>, with the \<open>path\<close> and the \<open>value\<close> that failed to cast
  (\<open>cast_value\<close> is the text the template literal renders for it).
\<close>

record field_error =
  fe_path :: string
  fe_message :: string

record validation_error = js_error +
  errors :: "(string \<times> field_error) list"

record cast_error = js_error +
  cast_path :: string
  cast_value :: string

text \<open>
  What a handler may throw and \<open>errorHandler\<close> receive as \<open>err: unknown\<close>: an instance
  of one of the classes the cascade tests for, any other \<open>Error\<close>, or a value that is
  no \<open>Error\<close> at all.
\<close>

datatype fault =
    AppErr app_error
  | ValidationErr validation_error
  | CastErr cast_error
  | SyntaxErr js_error
  | OtherErr js_error
  | NonError jsval

text \<open>\<open>err instanceof Error\<close>, and the properties every \<open>Error\<close> has.\<close>

fun is_Error :: "fault \<Rightarrow> bool" where
  "is_Error (NonError _) = False"
| "is_Error _ = True"

fun fault_name :: "fault \<Rightarrow> string" where
  "fault_name (AppErr a) = err_name a"
| "fault_name (ValidationErr v) = err_name v"
| "fault_name (CastErr c) = err_name c"
| "fault_name (SyntaxErr e) = err_name e"
| "fault_name (OtherErr e) = err_name e"
| "fault_name (NonError _) = []"

fun fault_message :: "fault \<Rightarrow> string" where
  "fault_message (AppErr a) = err_message a"
| "fault_message (ValidationErr v) = err_message v"
| "fault_message (CastErr c) = err_message c"
| "fault_message (SyntaxErr e) = err_message e"
| "fault_message (OtherErr e) = err_message e"
| "fault_message (NonError _) = []"

fun fault_stack :: "fault \<Rightarrow> string option" where
  "fault_stack (AppErr a) = err_stack a"
| "fault_stack (ValidationErr v) = err_stack v"
| "fault_stack (CastErr c) = err_stack c"
| "fault_stack (SyntaxErr e) = err_stack e"
| "fault_stack (OtherErr e) = err_stack e"
| "fault_stack (NonError _) = None"

text \<open>
  The properties of an \<open>Error\<close> instance besides name, message and stack: the fields
  its class declares, then the ones attached to it.
\<close>

fun fault_props :: "fault \<Rightarrow> (string \<times> jsval) list" where
  "fault_props (AppErr a) =
     [(''isOperational'', JBool (isOperational a)),
      (''timestamp'', JStr (app_timestamp a)),
      (''statusCode'', JNum (statusCode a)),
      (''errorCode'', JStr (app_errorCode a)),
      (''details'', app_details a)] @ err_props a"
| "fault_props (ValidationErr v) =
     (''errors'', JObj (map (\<lambda>(k, e). (k, JObj [(''path'', JStr (fe_path e)),
                                                 (''message'', JStr (fe_message e))]))
                         (errors v))) # err_props v"
| "fault_props (CastErr c) =
     [(''path'', JStr (cast_path c)), (''value'', JStr (cast_value c))] @ err_props c"
| "fault_props (SyntaxErr e) = err_props e"
| "fault_props (OtherErr e) = err_props e"
| "fault_props (NonError _) = []"

section \<open>The error handler\<close>

text \<open>\<open>Object.keys\<close> of a truthy value.\<close>

definition object_keys :: "jsval \<Rightarrow> string list" where
  "object_keys v = map fst (spread_props v)"

text \<open>
  The variables the cascade of \<open>errorHandler\<close> assigns
  (middlewares/errorHandler.middleware.ts), and \<open>rule_no\<close>, which records the branch
  taken: 1 to 10 in the order of the source, 0 when the chain falls through.
\<close>

record classification =
  rule_no :: nat
  c_statusCode :: int
  c_errorCode :: string
  c_message :: string
  c_details :: jsval

text \<open>
  The branches for an \<open>Error\<close> that is no \<open>AppError\<close>, \<open>ValidationError\<close> or
  \<open>CastError\<close>; \<open>syn\<close> is \<open>err instanceof SyntaxError\<close>.
\<close>

definition classify_foreign :: "bool \<Rightarrow> js_error \<Rightarrow> classification" where
  "classify_foreign syn e =
    (let ps = err_props e in
     if has_prop ''code'' ps \<and> get_prop ''code'' ps = JNum 11000 then
       \<lparr> rule_no = 4, c_statusCode = HTTPSTATUS_CONFLICT, c_errorCode = DB_DUPLICATE_KEY,
         c_message = ''A resource with this value already exists'',
         c_details = (let match = get_prop ''keyPattern'' ps in
                      if truthy match
                      then JObj [(''duplicateFields'', JArr (map JStr (object_keys match)))]
                      else JUndefined) \<rparr>
     else if syn \<and> has_prop ''body'' ps then
       \<lparr> rule_no = 5, c_statusCode = HTTPSTATUS_BAD_REQUEST, c_errorCode = VAL_400,
         c_message = ''Invalid JSON in request body'', c_details = JUndefined \<rparr>
     else if err_name e = ''JsonWebTokenError'' \<or> err_name e = ''TokenExpiredError'' then
       \<lparr> rule_no = 6, c_statusCode = HTTPSTATUS_UNAUTHORIZED, c_errorCode = AUTH_INVALID_TOKEN,
         c_message = (if err_name e = ''TokenExpiredError''
                      then ''Your session has expired. Please log in again''
                      else ''Invalid authentication token''),
         c_details = JUndefined \<rparr>
     else if has_prop ''statusCode'' ps
             \<and> get_prop ''statusCode'' ps = JNum HTTPSTATUS_TOO_MANY_REQUESTS then
       \<lparr> rule_no = 7, c_statusCode = HTTPSTATUS_TOO_MANY_REQUESTS, c_errorCode = RATE_429,
         c_message = ''Too many requests. Please try again later'', c_details = JUndefined \<rparr>
     else if has_prop ''code'' ps
             \<and> (get_prop ''code'' ps = JStr ''LIMIT_FILE_SIZE''
                \<or> get_prop ''code'' ps = JStr ''LIMIT_FILE_COUNT''
                \<or> get_prop ''code'' ps = JStr ''LIMIT_UNEXPECTED_FILE'') then
       \<lparr> rule_no = 8, c_statusCode = HTTPSTATUS_BAD_REQUEST, c_errorCode = FILE_UPLOAD_ERROR,
         c_message = (if get_prop ''code'' ps = JStr ''LIMIT_FILE_SIZE''
                      then ''File size exceeds the maximum allowed limit''
                      else ''File upload error''),
         c_details = JUndefined \<rparr>
     else if err_name e = ''ECONNREFUSED'' \<or> err_name e = ''ETIMEDOUT''
             \<or> err_name e = ''ENOTFOUND'' then
       \<lparr> rule_no = 9, c_statusCode = HTTPSTATUS_SERVICE_UNAVAILABLE,
         c_errorCode = EXT_SERVICE_UNAVAILABLE,
         c_message = ''External service is unavailable. Please try again later'',
         c_details = JUndefined \<rparr>
     else
       \<lparr> rule_no = 10, c_statusCode = HTTPSTATUS_INTERNAL_SERVER_ERROR, c_errorCode = SRV_500,
         c_message = (if err_message e \<noteq> [] then err_message e
                      else ''An unexpected error occurred''),
         c_details = JUndefined \<rparr>)"

text \<open>
  The whole if/else-if chain. The three class tests come first, in the order of the
  source; a value that is no \<open>Error\<close> passes every test and leaves the initial values.
\<close>

fun classify :: "fault \<Rightarrow> classification" where
  "classify (AppErr a) =
     \<lparr> rule_no = 1, c_statusCode = statusCode a, c_errorCode = app_errorCode a,
       c_message = err_message a, c_details = app_details a \<rparr>"
| "classify (ValidationErr v) =
     \<lparr> rule_no = 2, c_statusCode = HTTPSTATUS_BAD_REQUEST, c_errorCode = DB_VALIDATION_ERROR,
       c_message = ''Validation failed'',
       c_details = JArr (map (\<lambda>e. JObj [(''field'', JStr (fe_path e)),
                                          (''message'', JStr (fe_message e))])
                           (map snd (errors v))) \<rparr>"
| "classify (CastErr c) =
     \<lparr> rule_no = 3, c_statusCode = HTTPSTATUS_BAD_REQUEST, c_errorCode = VAL_INVALID_FORMAT,
       c_message = ''Invalid '' @ cast_path c @ '': '' @ cast_value c,
       c_details = JUndefined \<rparr>"
| "classify (SyntaxErr e) = classify_foreign True e"
| "classify (OtherErr e) = classify_foreign False e"
| "classify (NonError v) =
     \<lparr> rule_no = 0, c_statusCode = HTTPSTATUS_INTERNAL_SERVER_ERROR, c_errorCode = SRV_500,
       c_message = ''An unexpected error occurred'', c_details = JUndefined \<rparr>"

text \<open>The request, as far as the handlers read it.\<close>

record request =
  req_method :: string
  originalUrl :: string

text \<open>
  The body the handlers send (\<open>interface ErrorResponse\<close>) and the response:
  \<open>res.status(s).json(b)\<close>. \<open>details = None\<close> is a body without that key.
\<close>

record error_response =
  errorName :: jsval
  errorCode :: string
  httpStatus :: int
  message :: string
  details :: "jsval option"
  timestamp :: string
  path :: string

record http_response =
  status :: int
  body :: error_response

datatype js_exception = TypeError string | Error string

text \<open>
  \<open>error.name || "Error"\<close>, where \<open>error\<close> is \<open>err\<close> itself. Reading a property of
  \<open>null\<close> or \<open>undefined\<close> throws; a primitive or an array has no \<open>name\<close>.
\<close>

fun error_name :: "fault \<Rightarrow> js_exception + jsval" where
  "error_name (NonError JUndefined) =
     Inl (TypeError ''Cannot read properties of undefined (reading 'name')'')"
| "error_name (NonError JNull) =
     Inl (TypeError ''Cannot read properties of null (reading 'name')'')"
| "error_name (NonError (JObj ps)) =
     Inr (if truthy (get_prop ''name'' ps) then get_prop ''name'' ps else JStr ''Error'')"
| "error_name (NonError _) = Inr (JStr ''Error'')"
| "error_name err = Inr (if fault_name err \<noteq> [] then JStr (fault_name err) else JStr ''Error'')"

text \<open>
  The last step before sending: when \<open>Env.NODE_ENV\<close> is \<open>development\<close> and the error
  is an \<open>Error\<close> with a truthy stack, the details become the object
  \<open>{...details, stack: error.stack}\<close>.
\<close>

definition with_stack :: "string \<Rightarrow> fault \<Rightarrow> jsval option \<Rightarrow> jsval option" where
  "with_stack node_env err d =
    (case fault_stack err of
       None \<Rightarrow> d
     | Some s \<Rightarrow>
         if node_env = ''development'' \<and> is_Error err \<and> s \<noteq> []
         then Some (JObj (set_prop ''stack'' (JStr s)
                            (spread_props (case d of None \<Rightarrow> JUndefined | Some v \<Rightarrow> v))))
         else d)"

text \<open>
  \<open>errorHandler\<close>. \<open>node_env\<close> is \<open>Env.NODE_ENV\<close> and \<open>now\<close> the value of
  \<open>new Date().toISOString()\<close>.
\<close>

definition errorHandler ::
  "string \<Rightarrow> string \<Rightarrow> fault \<Rightarrow> request \<Rightarrow> js_exception + http_response" where
  "errorHandler node_env now err req =
    (let c = classify err in
     case error_name err of
       Inl ex \<Rightarrow> Inl ex
     | Inr nm \<Rightarrow>
         let errorResponse =
               \<lparr> errorName = nm, errorCode = c_errorCode c, httpStatus = c_statusCode c,
                 message = c_message c,
                 details = (if c_details c \<noteq> JUndefined then Some (c_details c) else None),
                 timestamp = now, path = originalUrl req \<rparr>;
             errorResponse' =
               errorResponse \<lparr> details := with_stack node_env err (details errorResponse) \<rparr>
         in Inr \<lparr> status = c_statusCode c, body = errorResponse' \<rparr>)"

text \<open>\<open>notFoundHandler\<close> (middlewares/notFound.middleware.ts).\<close>

definition notFoundHandler :: "string \<Rightarrow> request \<Rightarrow> http_response" where
  "notFoundHandler now req =
     \<lparr> status = HTTPSTATUS_NOT_FOUND,
       body = \<lparr> errorName = JStr ''NotFoundError'', errorCode = USR_404,
                httpStatus = HTTPSTATUS_NOT_FOUND,
                message = ''The requested endpoint '' @ req_method req @ '' ''
                          @ originalUrl req @ '' was not found'',
                details = None, timestamp = now, path = originalUrl req \<rparr> \<rparr>"

section \<open>Reading the environment\<close>

text \<open>
  \<open>process.env[key]\<close> is a property read. \<open>penv\<close> holds the variables that are set,
  whose values are strings; a key that is not set is looked up in the prototype of
  \<open>process.env\<close>, which is \<open>Object.prototype\<close>, so that the name of one of its members
  reads that member (a function, or for \<open>__proto__\<close> the prototype object itself) and
  only every other key reads \<open>undefined\<close>.
\<close>

definition object_prototype_members :: "string list" where
  "object_prototype_members =
     [''constructor'', ''__defineGetter__'', ''__defineSetter__'', ''hasOwnProperty'',
      ''__lookupGetter__'', ''__lookupSetter__'', ''isPrototypeOf'',
      ''propertyIsEnumerable'', ''toString'', ''valueOf'', ''__proto__'',
      ''toLocaleString'']"

datatype env_val = EnvString string | Inherited string

definition env_lookup :: "(string \<rightharpoonup> string) \<Rightarrow> string \<Rightarrow> env_val option" where
  "env_lookup penv key =
     (case penv key of
        Some v \<Rightarrow> Some (EnvString v)
      | None \<Rightarrow> if key \<in> set object_prototype_members then Some (Inherited key) else None)"

text \<open>The text a template literal renders for the value read.\<close>

fun template_text :: "env_val option \<Rightarrow> string" where
  "template_text None = ''undefined''"
| "template_text (Some (EnvString v)) = v"
| "template_text (Some (Inherited k)) =
     (if k = ''__proto__'' then ''[object Object]''
      else if k = ''constructor'' then ''function Object() { [native code] }''
      else ''function '' @ k @ ''() { [native code] }'')"

text \<open>
  \<open>getEnv\<close> (common/utils/get-env.ts). \<open>defaultValue = None\<close> is an omitted default.
  The first component of the result is what the call writes with \<open>console.log\<close>. An
  inherited member is neither nullish nor falsy: \<open>??\<close> keeps it and \<open>!val\<close> is false.
\<close>

definition getEnv ::
  "(string \<rightharpoonup> string) \<Rightarrow> string \<Rightarrow> string option \<Rightarrow> string list \<times> (js_exception + env_val)" where
  "getEnv penv key defaultValue =
    (let val = (case env_lookup penv key of
                  Some x \<Rightarrow> Some x
                | None \<Rightarrow> map_option EnvString defaultValue);
         out = (if env_lookup penv ''NODE_ENV'' \<noteq> Some (EnvString ''production'')
                then [''Env '' @ key @ '': '' @ template_text val]
                else [])
     in (out,
         case val of
           None \<Rightarrow> Inl (Error (''Missing env variable: '' @ key))
         | Some (EnvString v) \<Rightarrow>
             if v = [] then Inl (Error (''Missing env variable: '' @ key))
             else Inr (EnvString v)
         | Some (Inherited k) \<Rightarrow> Inr (Inherited k)))"

section \<open>The asynchronous boundary\<close>

text \<open>
  What a controller does with one request: it may send a response and may call
  \<open>next\<close> itself (\<open>None\<close> is \<open>next()\<close> without an argument), and then its promise
  resolves, or it throws before returning a promise, or its promise rejects.
\<close>

datatype completion = Resolved | Threw fault | Rejected fault

record exchange =
  sent :: "http_response list"
  next_calls :: "fault option list"

type_synonym controller = "request \<Rightarrow> exchange \<Rightarrow> exchange \<times> completion"

text \<open>\<open>asyncHandler\<close> (middlewares/asyncHandler.middleware.ts).\<close>

definition asyncHandler :: "controller \<Rightarrow> request \<Rightarrow> exchange \<Rightarrow> exchange" where
  "asyncHandler ctrl req ex =
    (case ctrl req ex of
       (ex', Resolved) \<Rightarrow> ex'
     | (ex', Threw error) \<Rightarrow> ex' \<lparr> next_calls := next_calls ex' @ [Some error] \<rparr>
     | (ex', Rejected error) \<Rightarrow> ex' \<lparr> next_calls := next_calls ex' @ [Some error] \<rparr>)"

section \<open>Process-level handlers\<close>

text \<open>
  The process as common/utils/process-handlers.ts uses it: \<open>process.on\<close> appends a
  listener to the event's list, an event runs the listeners of its list in the order
  of registration, \<open>setTimeout\<close> queues a callback and \<open>process.exit\<close> ends the process,
  so that nothing runs after it. \<open>fired\<close> logs each run of a listener.
\<close>

datatype process_event = UnhandledRejection | UncaughtException | SIGTERM | SIGINT

datatype listener = RejectionListener | ExceptionListener | SigtermListener | SigintListener

record process_state =
  listeners :: "(process_event \<times> listener) list"
  timers :: "(nat \<times> int) list"
  exit_code :: "int option"
  fired :: "listener list"

definition process_on :: "process_event \<Rightarrow> listener \<Rightarrow> process_state \<Rightarrow> process_state" where
  "process_on ev l st = st \<lparr> listeners := listeners st @ [(ev, l)] \<rparr>"

definition process_exit :: "int \<Rightarrow> process_state \<Rightarrow> process_state" where
  "process_exit c st = st \<lparr> exit_code := Some c \<rparr>"

definition handleUnhandledRejection :: "process_state \<Rightarrow> process_state" where
  "handleUnhandledRejection = process_on UnhandledRejection RejectionListener"

definition handleUncaughtException :: "process_state \<Rightarrow> process_state" where
  "handleUncaughtException = process_on UncaughtException ExceptionListener"

definition handleSIGTERM :: "process_state \<Rightarrow> process_state" where
  "handleSIGTERM = process_on SIGTERM SigtermListener"

definition handleSIGINT :: "process_state \<Rightarrow> process_state" where
  "handleSIGINT = process_on SIGINT SigintListener"

definition initializeProcessHandlers :: "process_state \<Rightarrow> process_state" where
  "initializeProcessHandlers st =
     handleSIGINT (handleSIGTERM (handleUncaughtException (handleUnhandledRejection st)))"

text \<open>The bodies of the four listeners; \<open>node_env\<close> is \<open>Env.NODE_ENV\<close>.\<close>

fun listener_body :: "string \<Rightarrow> listener \<Rightarrow> process_state \<Rightarrow> process_state" where
  "listener_body node_env RejectionListener st =
     (if node_env = ''production'' then st \<lparr> timers := timers st @ [(1000, 1)] \<rparr> else st)"
| "listener_body node_env ExceptionListener st = process_exit 1 st"
| "listener_body node_env SigtermListener st = process_exit 0 st"
| "listener_body node_env SigintListener st = process_exit 0 st"

definition run_listener :: "string \<Rightarrow> listener \<Rightarrow> process_state \<Rightarrow> process_state" where
  "run_listener node_env l st =
     (if exit_code st = None then listener_body node_env l (st \<lparr> fired := fired st @ [l] \<rparr>)
      else st)"

definition listeners_of :: "process_event \<Rightarrow> process_state \<Rightarrow> listener list" where
  "listeners_of ev st = map snd (filter (\<lambda>p. fst p = ev) (listeners st))"

definition emit :: "string \<Rightarrow> process_event \<Rightarrow> process_state \<Rightarrow> process_state" where
  "emit node_env ev st = fold (run_listener node_env) (listeners_of ev st) st"

definition fresh_process :: process_state where
  "fresh_process = \<lparr> listeners = [], timers = [], exit_code = None, fired = [] \<rparr>"

section \<open>Notions used to state the properties\<close>

text \<open>
  The eighteen subclasses of \<open>AppError\<close>, named as in the table of section 4.1 of the
  specification, each with its constructor in app-error.ts.
\<close>

datatype variant =
    BadRequest | Unauthorized | Forbidden | NotFound | MethodNotAllowed | Conflict
  | UnprocessableEntity | TooManyRequests | Validation | Authentication | Authorization
  | Database | DatabaseConnection | ExternalService | ServiceUnavailable | GatewayTimeout
  | InternalServer | NotImplemented

fun construct ::
  "variant \<Rightarrow> string \<Rightarrow> string \<Rightarrow> string option \<Rightarrow> string option \<Rightarrow> jsval \<Rightarrow> app_error" where
  "construct BadRequest = BadRequestException"
| "construct Unauthorized = UnauthorizedException"
| "construct Forbidden = ForbiddenException"
| "construct NotFound = NotFoundException"
| "construct MethodNotAllowed = MethodNotAllowedException"
| "construct Conflict = ConflictException"
| "construct UnprocessableEntity = UnprocessableEntityException"
| "construct TooManyRequests = TooManyRequestsException"
| "construct Validation = ValidationException"
| "construct Authentication = AuthenticationException"
| "construct Authorization = AuthorizationException"
| "construct Database = DatabaseException"
| "construct DatabaseConnection = DatabaseConnectionException"
| "construct ExternalService = ExternalServiceException"
| "construct ServiceUnavailable = ServiceUnavailableException"
| "construct GatewayTimeout = GatewayTimeoutException"
| "construct InternalServer = InternalServerException"
| "construct NotImplemented = NotImplementedException"

text \<open>
  The table of section 4.1 as the specification gives it, row by row. The specification
  names each code by a label of its own; the entry here is the member of
  \<open>ErrorCodeEnum\<close> that the label stands for: client-bad-request is \<open>USR_400\<close>,
  auth-unauthorized \<open>AUTH_401\<close>, auth-forbidden \<open>AUTH_403\<close>, client-not-found
  \<open>USR_404\<close>, client-method-not-allowed \<open>USR_405\<close>, client-conflict \<open>USR_409\<close>,
  client-unprocessable \<open>USR_422\<close>, rate-limit-exceeded \<open>RATE_429\<close>, validation-failed
  \<open>VAL_400\<close>, storage-error \<open>DB_500\<close>, storage-connection-error
  \<open>DB_CONNECTION_ERROR\<close>, external-api-error \<open>EXT_API_ERROR\<close>, external-unavailable
  \<open>EXT_503\<close>, external-timeout \<open>EXT_504\<close>, server-internal-error \<open>SRV_500\<close> and
  server-not-implemented \<open>SRV_501\<close>.
\<close>

fun spec_default :: "variant \<Rightarrow> int \<times> string" where
  "spec_default BadRequest = (400, USR_400)"
| "spec_default Unauthorized = (401, AUTH_401)"
| "spec_default Forbidden = (403, AUTH_403)"
| "spec_default NotFound = (404, USR_404)"
| "spec_default MethodNotAllowed = (405, USR_405)"
| "spec_default Conflict = (409, USR_409)"
| "spec_default UnprocessableEntity = (422, USR_422)"
| "spec_default TooManyRequests = (429, RATE_429)"
| "spec_default Validation = (400, VAL_400)"
| "spec_default Authentication = (401, AUTH_401)"
| "spec_default Authorization = (403, AUTH_403)"
| "spec_default Database = (500, DB_500)"
| "spec_default DatabaseConnection = (503, DB_CONNECTION_ERROR)"
| "spec_default ExternalService = (502, EXT_API_ERROR)"
| "spec_default ServiceUnavailable = (503, EXT_503)"
| "spec_default GatewayTimeout = (504, EXT_504)"
| "spec_default InternalServer = (500, SRV_500)"
| "spec_default NotImplemented = (501, SRV_501)"

text \<open>The \<open>instanceof\<close> tests of the cascade.\<close>

fun is_AppError :: "fault \<Rightarrow> bool" where
  "is_AppError (AppErr _) = True"
| "is_AppError _ = False"

fun is_ValidationError :: "fault \<Rightarrow> bool" where
  "is_ValidationError (ValidationErr _) = True"
| "is_ValidationError _ = False"

fun is_CastError :: "fault \<Rightarrow> bool" where
  "is_CastError (CastErr _) = True"
| "is_CastError _ = False"

fun is_SyntaxError :: "fault \<Rightarrow> bool" where
  "is_SyntaxError (SyntaxErr _) = True"
| "is_SyntaxError _ = False"

text \<open>
  The condition of the \<open>n\<close>-th branch of the chain, as the source writes it, on any
  fault and without regard to the branches before it. The conditions overlap: a
  \<open>TooManyRequestsException\<close> satisfies those of branches 1, 7 and 10.
\<close>

definition rule_guard :: "nat \<Rightarrow> fault \<Rightarrow> bool" where
  "rule_guard n err =
    (let ps = fault_props err in
     if n = 1 then is_AppError err
     else if n = 2 then is_ValidationError err
     else if n = 3 then is_CastError err
     else if n = 4 then is_Error err \<and> has_prop ''code'' ps \<and> get_prop ''code'' ps = JNum 11000
     else if n = 5 then is_SyntaxError err \<and> has_prop ''body'' ps
     else if n = 6 then
       is_Error err
       \<and> (fault_name err = ''JsonWebTokenError'' \<or> fault_name err = ''TokenExpiredError'')
     else if n = 7 then
       is_Error err \<and> has_prop ''statusCode'' ps
       \<and> get_prop ''statusCode'' ps = JNum HTTPSTATUS_TOO_MANY_REQUESTS
     else if n = 8 then
       is_Error err \<and> has_prop ''code'' ps
       \<and> (get_prop ''code'' ps = JStr ''LIMIT_FILE_SIZE''
          \<or> get_prop ''code'' ps = JStr ''LIMIT_FILE_COUNT''
          \<or> get_prop ''code'' ps = JStr ''LIMIT_UNEXPECTED_FILE'')
     else if n = 9 then
       is_Error err
       \<and> (fault_name err = ''ECONNREFUSED'' \<or> fault_name err = ''ETIMEDOUT''
          \<or> fault_name err = ''ENOTFOUND'')
     else if n = 10 then is_Error err
     else False)"

text \<open>Rule \<open>n\<close> fires: its condition holds and no earlier one does.\<close>

definition fires :: "nat \<Rightarrow> fault \<Rightarrow> bool" where
  "fires n err = (rule_guard n err \<and> (\<forall>m<n. \<not> rule_guard m err))"

text \<open>The fault with another stack, and whether a body's details carry a stack key.\<close>

fun set_stack :: "string option \<Rightarrow> fault \<Rightarrow> fault" where
  "set_stack s (AppErr a) = AppErr (a \<lparr> err_stack := s \<rparr>)"
| "set_stack s (ValidationErr v) = ValidationErr (v \<lparr> err_stack := s \<rparr>)"
| "set_stack s (CastErr c) = CastErr (c \<lparr> err_stack := s \<rparr>)"
| "set_stack s (SyntaxErr e) = SyntaxErr (e \<lparr> err_stack := s \<rparr>)"
| "set_stack s (OtherErr e) = OtherErr (e \<lparr> err_stack := s \<rparr>)"
| "set_stack s (NonError v) = NonError v"

definition has_stack_field :: "jsval option \<Rightarrow> bool" where
  "has_stack_field d = (case d of Some (JObj ps) \<Rightarrow> has_prop ''stack'' ps | _ \<Rightarrow> False)"

text \<open>The details key of the body for a value of the variable \<open>details\<close>.\<close>

definition present :: "jsval \<Rightarrow> jsval option" where
  "present v = (if v \<noteq> JUndefined then Some v else None)"

text \<open>The listener each event gets, and the status its listener exits with.\<close>

fun listener_for :: "process_event \<Rightarrow> listener" where
  "listener_for UnhandledRejection = RejectionListener"
| "listener_for UncaughtException = ExceptionListener"
| "listener_for SIGTERM = SigtermListener"
| "listener_for SIGINT = SigintListener"

fun exit_status_of :: "process_event \<Rightarrow> int" where
  "exit_status_of UnhandledRejection = 1"
| "exit_status_of UncaughtException = 1"
| "exit_status_of SIGTERM = 0"
| "exit_status_of SIGINT = 0"

text \<open>Sample inputs: requests, faults of the storage layer and of unknown origin, controllers.\<close>

definition nope_request :: request where
  "nope_request = \<lparr> req_method = ''GET'', originalUrl = ''/nope'' \<rparr>"

definition users_request :: request where
  "users_request = \<lparr> req_method = ''POST'', originalUrl = ''/api/v1/users'' \<rparr>"

definition duplicate_email_fault :: fault where
  "duplicate_email_fault =
     OtherErr \<lparr> err_name = ''MongoServerError'',
                err_message = ''E11000 duplicate key error collection: app.users index: email_1'',
                err_stack = Some ''MongoServerError: E11000 at insertOne (users.js:12)'',
                err_props = [(''code'', JNum 11000), (''keyPattern'', JObj [(''email'', JNum 1)])] \<rparr>"

definition internal_fault :: "string \<Rightarrow> fault" where
  "internal_fault m =
     OtherErr \<lparr> err_name = ''Error'', err_message = m,
                err_stack = Some ''Error at connect (db.js:7)'', err_props = [] \<rparr>"

definition responding_controller :: controller where
  "responding_controller req ex = (ex \<lparr> sent := sent ex @ [notFoundHandler ''t'' req] \<rparr>, Resolved)"

definition rejecting_controller :: controller where
  "rejecting_controller req ex =
     (ex \<lparr> sent := sent ex @ [notFoundHandler ''t'' req] \<rparr>, Rejected (internal_fault ''boom''))"

definition throwing_controller :: controller where
  "throwing_controller req ex = (ex, Threw (NonError (JStr ''boom'')))"

section \<open>Lemmas\<close>

lemmas exception_defs =
  BadRequestException_def UnauthorizedException_def ForbiddenException_def
  NotFoundException_def MethodNotAllowedException_def ConflictException_def
  UnprocessableEntityException_def TooManyRequestsException_def ValidationException_def
  AuthenticationException_def AuthorizationException_def DatabaseException_def
  DatabaseConnectionException_def ExternalServiceException_def
  ServiceUnavailableException_def GatewayTimeoutException_def InternalServerException_def
  NotImplementedException_def

lemmas handler_defs =
  initializeProcessHandlers_def handleUnhandledRejection_def handleUncaughtException_def
  handleSIGTERM_def handleSIGINT_def process_on_def

subsection \<open>The cascade\<close>

lemma fires_unique: "fires n err \<Longrightarrow> fires m err \<Longrightarrow> n = m"
  unfolding fires_def by (meson nat_neq_iff)

lemma rule_no_range: "rule_no (classify err) \<le> 10"
  by (cases err) (simp_all add: classify_foreign_def Let_def)

lemma rule_no_zero: "rule_no (classify err) = 0 \<longleftrightarrow> \<not> is_Error err"
  by (cases err) (simp_all add: classify_foreign_def Let_def)

lemma foreign_fires:
  assumes "err = SyntaxErr e \<and> syn \<or> err = OtherErr e \<and> \<not> syn"
  shows "fires (rule_no (classify_foreign syn e)) err"
proof -
  have p: "fault_props err = err_props e" and n: "fault_name err = err_name e"
    and i: "is_Error err" "\<not> is_AppError err" "\<not> is_ValidationError err" "\<not> is_CastError err"
    and s: "is_SyntaxError err = syn"
    using assms by auto
  have lt: "\<And>m::nat. m < 10 \<Longrightarrow> m \<in> {0, 1, 2, 3, 4, 5, 6, 7, 8, 9}" by auto
  show ?thesis
    unfolding fires_def
    apply (rule conjI)
     apply (simp add: classify_foreign_def rule_guard_def Let_def p n i s)
    apply (intro allI impI)
    subgoal for m
      apply (subgoal_tac "m < 10")
       apply (drule lt)
       apply (auto simp: classify_foreign_def rule_guard_def Let_def p n i s split: if_splits)[1]
      apply (auto simp: classify_foreign_def Let_def split: if_splits)[1]
      done
    done
qed

lemma classify_fires:
  assumes "is_Error err"
  shows "fires (rule_no (classify err)) err"
proof (cases err)
  case (AppErr a)
  then show ?thesis by (simp add: fires_def rule_guard_def)
next
  case (ValidationErr v)
  then show ?thesis by (auto simp: fires_def rule_guard_def dest!: less_2_cases)
next
  case (CastErr c)
  have "\<And>m::nat. m < 3 \<Longrightarrow> m = 0 \<or> m = 1 \<or> m = 2" by arith
  with CastErr show ?thesis by (auto simp: fires_def rule_guard_def)
next
  case (SyntaxErr e)
  then show ?thesis using foreign_fires [of err e True] by simp
next
  case (OtherErr e)
  then show ?thesis using foreign_fires [of err e False] by simp
next
  case (NonError v)
  with assms show ?thesis by simp
qed

lemma foreign_status:
  "400 \<le> c_statusCode (classify_foreign syn e) \<and> c_statusCode (classify_foreign syn e) \<le> 599"
  by (simp add: classify_foreign_def Let_def)

lemma construct_status:
  "400 \<le> statusCode (construct v now stk msg ec det)
   \<and> statusCode (construct v now stk msg ec det) \<le> 599"
  by (cases v) (simp_all add: exception_defs AppError_def)

subsection \<open>The response\<close>

lemma error_name_Inl:
  "(\<exists>ex. error_name err = Inl ex) \<longleftrightarrow> err = NonError JUndefined \<or> err = NonError JNull"
  by (cases err rule: error_name.cases) simp_all

lemma errorHandler_Inr:
  "errorHandler node_env now err req = Inr r \<Longrightarrow>
   status r = c_statusCode (classify err) \<and> httpStatus (body r) = c_statusCode (classify err)
   \<and> errorCode (body r) = c_errorCode (classify err) \<and> message (body r) = c_message (classify err)
   \<and> details (body r) = with_stack node_env err (present (c_details (classify err)))
   \<and> path (body r) = originalUrl req \<and> timestamp (body r) = now"
  by (auto simp: errorHandler_def Let_def present_def split: sum.splits)

lemma errorHandler_total:
  "(\<exists>r. errorHandler node_env now err req = Inr r)
   \<longleftrightarrow> err \<noteq> NonError JUndefined \<and> err \<noteq> NonError JNull"
proof -
  have "(\<exists>r. errorHandler node_env now err req = Inr r) \<longleftrightarrow> \<not> (\<exists>ex. error_name err = Inl ex)"
    by (auto simp: errorHandler_def Let_def split: sum.splits)
  then show ?thesis by (simp add: error_name_Inl)
qed

lemma map_of_set_prop: "map_of (set_prop k v ps) k' = (if k' = k then Some v else map_of ps k')"
  by (induction ps) auto

lemma classify_foreign_stack [simp]:
  "classify_foreign syn (e \<lparr> err_stack := s \<rparr>) = classify_foreign syn e"
  by (simp add: classify_foreign_def Let_def cong del: if_weak_cong)

lemma classify_set_stack: "classify (set_stack s err) = classify err"
  by (cases err) simp_all

lemma error_name_set_stack: "error_name (set_stack s err) = error_name err"
  by (cases err rule: error_name.cases) simp_all

lemma with_stack_off: "node_env \<noteq> ''development'' \<Longrightarrow> with_stack node_env err d = d"
  by (simp add: with_stack_def split: option.splits)

lemma errorHandler_set_stack:
  "node_env \<noteq> ''development'' \<Longrightarrow>
   errorHandler node_env now (set_stack s err) req = errorHandler node_env now err req"
  by (simp add: errorHandler_def Let_def classify_set_stack error_name_set_stack with_stack_off
      split: sum.splits)

lemma foreign_details_no_stack: "\<not> has_stack_field (present (c_details (classify_foreign syn e)))"
  by (simp add: classify_foreign_def Let_def has_stack_field_def present_def has_prop_def)

lemma classify_details_no_stack:
  "has_stack_field (present (c_details (classify err))) \<Longrightarrow>
   \<exists>a. err = AppErr a \<and> has_stack_field (present (app_details a))"
  using foreign_details_no_stack
  by (cases err) (auto simp: has_stack_field_def present_def)

subsection \<open>The process\<close>

lemma init_listeners_of:
  "listeners_of ev (initializeProcessHandlers st) = listeners_of ev st @ [listener_for ev]"
  by (cases ev) (simp_all add: handler_defs listeners_of_def)

lemma init_other_fields:
  "timers (initializeProcessHandlers st) = timers st
   \<and> exit_code (initializeProcessHandlers st) = exit_code st
   \<and> fired (initializeProcessHandlers st) = fired st"
  by (simp add: handler_defs)

lemma init_funpow_listeners_of:
  "listeners_of ev ((initializeProcessHandlers ^^ n) st)
     = listeners_of ev st @ replicate n (listener_for ev)"
proof (induction n)
  case 0
  show ?case by simp
next
  case (Suc n)
  have "replicate n (listener_for ev) @ [listener_for ev] = replicate (Suc n) (listener_for ev)"
    by (simp add: replicate_append_same)
  with Suc show ?case by (simp add: init_listeners_of)
qed

lemma init_funpow_other_fields:
  "timers ((initializeProcessHandlers ^^ n) st) = timers st
   \<and> exit_code ((initializeProcessHandlers ^^ n) st) = exit_code st
   \<and> fired ((initializeProcessHandlers ^^ n) st) = fired st"
  by (induction n) (simp_all add: init_other_fields)

lemma run_after_exit: "exit_code st \<noteq> None \<Longrightarrow> fold (run_listener node_env) ls st = st"
  by (induction ls) (auto simp: run_listener_def)

lemma rejection_runs:
  "exit_code st = None \<Longrightarrow>
   fired (fold (run_listener node_env) (replicate n RejectionListener) st)
     = fired st @ replicate n RejectionListener
   \<and> timers (fold (run_listener node_env) (replicate n RejectionListener) st)
     = timers st @ (if node_env = ''production'' then replicate n (1000, 1) else [])
   \<and> exit_code (fold (run_listener node_env) (replicate n RejectionListener) st) = None"
proof (induction n arbitrary: st)
  case 0
  then show ?case by simp
next
  case (Suc n)
  let ?st = "run_listener node_env RejectionListener st"
  have s: "exit_code ?st = None" "fired ?st = fired st @ [RejectionListener]"
    "timers ?st = timers st @ (if node_env = ''production'' then [(1000, 1)] else [])"
    using Suc.prems by (simp_all add: run_listener_def)
  from Suc.IH [OF s(1)] s show ?case
    by (simp del: fold_replicate)
qed

lemma exiting_runs:
  assumes "exit_code st = None" and "ev \<noteq> UnhandledRejection"
  shows "fired (fold (run_listener node_env) (replicate (Suc n) (listener_for ev)) st)
           = fired st @ [listener_for ev]
         \<and> exit_code (fold (run_listener node_env) (replicate (Suc n) (listener_for ev)) st)
           = Some (exit_status_of ev)
         \<and> timers (fold (run_listener node_env) (replicate (Suc n) (listener_for ev)) st)
           = timers st"
proof -
  let ?st = "run_listener node_env (listener_for ev) st"
  have s: "exit_code ?st = Some (exit_status_of ev)" "fired ?st = fired st @ [listener_for ev]"
    "timers ?st = timers st"
    using assms by (cases ev; simp add: run_listener_def process_exit_def)+
  then have "fold (run_listener node_env) (replicate n (listener_for ev)) ?st = ?st"
    by (simp add: run_after_exit del: fold_replicate)
  with s show ?thesis by (simp del: fold_replicate)
qed

section \<open>The properties\<close>

text \<open>
  C1, as amended. A fault that is an \<open>Error\<close> takes exactly one of the ten branches of
  \<open>errorHandler\<close>, the first whose condition holds in the order of the source, and that
  is the branch \<open>classify\<close> records. A thrown value that is no \<open>Error\<close> takes none: the
  initial 500 and \<open>SRV_500\<close> stay. The httpStatus of the response lies in [400,599]
  for every fault but an \<open>AppError\<close>, for which it is the error's own \<open>statusCode\<close>,
  whatever the raiser chose; each of the eighteen subclasses chooses one in [400,599].
\<close>

theorem cascade_first_match:
  "(is_Error err \<longrightarrow>
      (\<exists>!n. fires n err) \<and> fires (rule_no (classify err)) err
      \<and> 1 \<le> rule_no (classify err) \<and> rule_no (classify err) \<le> 10)
   \<and> (\<not> is_Error err \<longrightarrow>
      (\<forall>n. \<not> fires n err) \<and> rule_no (classify err) = 0
      \<and> c_statusCode (classify err) = 500 \<and> c_errorCode (classify err) = SRV_500)
   \<and> (errorHandler node_env now err req = Inr r \<longrightarrow>
      (case err of
         AppErr a \<Rightarrow> httpStatus (body r) = statusCode a
       | _ \<Rightarrow> 400 \<le> httpStatus (body r) \<and> httpStatus (body r) \<le> 599))
   \<and> 400 \<le> statusCode (construct v now stk msg ec det)
   \<and> statusCode (construct v now stk msg ec det) \<le> 599"
proof (intro conjI impI)
  assume e: "is_Error err"
  from classify_fires [OF e] show "fires (rule_no (classify err)) err" .
  then show "\<exists>!n. fires n err" using fires_unique by blast
  from e rule_no_zero [of err] show "1 \<le> rule_no (classify err)" by (simp add: Suc_le_eq)
  show "rule_no (classify err) \<le> 10" by (rule rule_no_range)
next
  assume ne: "\<not> is_Error err"
  then obtain x where x: "err = NonError x" by (cases err) auto
  show "\<forall>n. \<not> fires n err" by (simp add: x fires_def rule_guard_def)
  show "rule_no (classify err) = 0" by (simp add: x)
  show "c_statusCode (classify err) = 500" by (simp add: x)
  show "c_errorCode (classify err) = SRV_500" by (simp add: x)
next
  assume r: "errorHandler node_env now err req = Inr r"
  from errorHandler_Inr [OF r] have h: "httpStatus (body r) = c_statusCode (classify err)" by simp
  show "case err of AppErr a \<Rightarrow> httpStatus (body r) = statusCode a
        | _ \<Rightarrow> 400 \<le> httpStatus (body r) \<and> httpStatus (body r) \<le> 599"
    using h by (cases err) (simp_all add: foreign_status)
next
  show "400 \<le> statusCode (construct v now stk msg ec det)"
    and "statusCode (construct v now stk msg ec det) \<le> 599"
    using construct_status [of v now stk msg ec det] by simp_all
qed

theorem cascade_first_match_witness:
  "is_Error duplicate_email_fault \<and> fires 4 duplicate_email_fault
   \<and> \<not> is_Error (NonError (JStr ''boom'')) \<and> \<not> fires 10 (NonError (JStr ''boom''))
   \<and> errorHandler ''production'' ''2024-01-15T10:30:00.000Z'' duplicate_email_fault users_request
       = Inr \<lparr> status = 409,
               body = \<lparr> errorName = JStr ''MongoServerError'', errorCode = DB_DUPLICATE_KEY,
                        httpStatus = 409,
                        message = ''A resource with this value already exists'',
                        details = Some (JObj [(''duplicateFields'', JArr [JStr ''email''])]),
                        timestamp = ''2024-01-15T10:30:00.000Z'',
                        path = ''/api/v1/users'' \<rparr> \<rparr>
   \<and> (400::int) \<le> 409 \<and> (409::int) \<le> 599"
proof -
  let ?r = "\<lparr> status = 409,
               body = \<lparr> errorName = JStr ''MongoServerError'', errorCode = DB_DUPLICATE_KEY,
                        httpStatus = 409,
                        message = ''A resource with this value already exists'',
                        details = Some (JObj [(''duplicateFields'', JArr [JStr ''email''])]),
                        timestamp = ''2024-01-15T10:30:00.000Z'',
                        path = ''/api/v1/users'' \<rparr> \<rparr>"
  have h: "errorHandler ''production'' ''2024-01-15T10:30:00.000Z'' duplicate_email_fault
             users_request = Inr ?r"
    by (simp add: errorHandler_def duplicate_email_fault_def users_request_def
        classify_foreign_def has_prop_def get_prop_def object_keys_def with_stack_def)
  have e: "is_Error duplicate_email_fault" by (simp add: duplicate_email_fault_def)
  have c: "rule_no (classify duplicate_email_fault) = 4"
    by (simp add: duplicate_email_fault_def classify_foreign_def has_prop_def get_prop_def)
  have n: "\<not> is_Error (NonError (JStr ''boom''))" by simp
  from cascade_first_match [of duplicate_email_fault "''production''"
      "''2024-01-15T10:30:00.000Z''" users_request ?r] e c
    cascade_first_match [of "NonError (JStr ''boom'')"] n h
  show ?thesis by simp
qed

theorem cascade_first_match_counterexample:
  "errorHandler ''production'' ''2024-01-15T10:30:00.000Z''
     (AppErr (AppError ''AppError'' ''2024-01-15T10:30:00.000Z'' ''AppError: Saved'' ''Saved''
                (Some HTTPSTATUS_OK) None JUndefined))
     users_request
   = Inr \<lparr> status = 200,
           body = \<lparr> errorName = JStr ''AppError'', errorCode = SRV_500, httpStatus = 200,
                    message = ''Saved'', details = None,
                    timestamp = ''2024-01-15T10:30:00.000Z'', path = ''/api/v1/users'' \<rparr> \<rparr>
   \<and> \<not> (400 \<le> (200::int))
   \<and> rule_no (classify (NonError (JStr ''boom''))) = 0
   \<and> \<not> rule_guard 10 (NonError (JStr ''boom''))"
  by (simp add: errorHandler_def AppError_def users_request_def with_stack_def rule_guard_def)

text \<open>
  C2: in production, the message of a fault that only the last branch (rule 10) takes is
  a safe generic string and never the fault's own message. The handler does otherwise:
  in production two such faults that differ only in their message get responses that
  differ in that message, each the fault's own text; the generic string is used only
  for an empty message.
\<close>

theorem fallback_message_verbatim:
  "rule_no (classify (internal_fault ''connect ECONNREFUSED 10.0.0.5:27017'')) = 10
   \<and> errorHandler ''production'' ''2024-01-15T10:30:00.000Z''
       (internal_fault ''connect ECONNREFUSED 10.0.0.5:27017'') users_request
     = Inr \<lparr> status = 500,
             body = \<lparr> errorName = JStr ''Error'', errorCode = SRV_500, httpStatus = 500,
                      message = ''connect ECONNREFUSED 10.0.0.5:27017'', details = None,
                      timestamp = ''2024-01-15T10:30:00.000Z'', path = ''/api/v1/users'' \<rparr> \<rparr>
   \<and> rule_no (classify (internal_fault ''no such column users.pwd_hash'')) = 10
   \<and> errorHandler ''production'' ''2024-01-15T10:30:00.000Z''
       (internal_fault ''no such column users.pwd_hash'') users_request
     = Inr \<lparr> status = 500,
             body = \<lparr> errorName = JStr ''Error'', errorCode = SRV_500, httpStatus = 500,
                      message = ''no such column users.pwd_hash'', details = None,
                      timestamp = ''2024-01-15T10:30:00.000Z'', path = ''/api/v1/users'' \<rparr> \<rparr>
   \<and> errorHandler ''production'' ''2024-01-15T10:30:00.000Z'' (internal_fault []) users_request
     = Inr \<lparr> status = 500,
             body = \<lparr> errorName = JStr ''Error'', errorCode = SRV_500, httpStatus = 500,
                      message = ''An unexpected error occurred'', details = None,
                      timestamp = ''2024-01-15T10:30:00.000Z'', path = ''/api/v1/users'' \<rparr> \<rparr>"
  by (simp add: errorHandler_def internal_fault_def users_request_def classify_foreign_def
      has_prop_def get_prop_def with_stack_def)

text \<open>
  C3, as amended. \<open>initializeProcessHandlers\<close> is not idempotent: every call appends one
  more listener to each of the four events, so after \<open>n\<close> calls on a fresh process each
  event has \<open>n\<close> listeners. An unhandled rejection then runs its listener \<open>n\<close> times (and
  in production queues \<open>n\<close> exit timers); an uncaught exception, SIGTERM or SIGINT runs
  only the first of its listeners, because that one exits the process. After exactly
  one call every event runs its listener exactly once.
\<close>

theorem registration_accumulates:
  "length (listeners_of ev ((initializeProcessHandlers ^^ n) fresh_process)) = n
   \<and> fired (emit node_env UnhandledRejection ((initializeProcessHandlers ^^ n) fresh_process))
       = replicate n RejectionListener
   \<and> timers (emit ''production'' UnhandledRejection ((initializeProcessHandlers ^^ n) fresh_process))
       = replicate n (1000, 1)
   \<and> (0 < n \<and> ev \<noteq> UnhandledRejection \<longrightarrow>
        fired (emit node_env ev ((initializeProcessHandlers ^^ n) fresh_process)) = [listener_for ev]
        \<and> exit_code (emit node_env ev ((initializeProcessHandlers ^^ n) fresh_process))
            = Some (exit_status_of ev))
   \<and> fired (emit node_env ev (initializeProcessHandlers fresh_process)) = [listener_for ev]"
proof -
  let ?st = "(initializeProcessHandlers ^^ n) fresh_process"
  have f: "exit_code ?st = None" "fired ?st = []" "timers ?st = []"
    using init_funpow_other_fields [of n fresh_process] by (simp_all add: fresh_process_def)
  have l: "\<And>e. listeners_of e ?st = replicate n (listener_for e)"
    by (simp add: init_funpow_listeners_of) (simp add: listeners_of_def fresh_process_def)
  have 1: "length (listeners_of ev ?st) = n" by (simp add: l)
  have 2: "fired (emit node_env UnhandledRejection ?st) = replicate n RejectionListener"
    using rejection_runs [OF f(1), of node_env n] by (simp add: emit_def l f del: fold_replicate)
  have 3: "timers (emit ''production'' UnhandledRejection ?st) = replicate n (1000, 1)"
    using rejection_runs [OF f(1), of "''production''" n]
    by (simp add: emit_def l f del: fold_replicate)
  have 4: "0 < n \<and> ev \<noteq> UnhandledRejection \<longrightarrow>
        fired (emit node_env ev ?st) = [listener_for ev]
        \<and> exit_code (emit node_env ev ?st) = Some (exit_status_of ev)"
  proof
    assume a: "0 < n \<and> ev \<noteq> UnhandledRejection"
    then obtain k where k: "n = Suc k" by (cases n) auto
    from a exiting_runs [OF f(1), of ev node_env k]
    show "fired (emit node_env ev ?st) = [listener_for ev]
        \<and> exit_code (emit node_env ev ?st) = Some (exit_status_of ev)"
      unfolding emit_def l k [symmetric] by (simp add: f)
  qed
  have 5: "fired (emit node_env ev (initializeProcessHandlers fresh_process)) = [listener_for ev]"
    by (cases ev)
       (simp_all add: emit_def listeners_of_def handler_defs fresh_process_def run_listener_def
          process_exit_def)
  from 1 2 3 4 5 show ?thesis by blast
qed

theorem registration_accumulates_witness:
  "(0::nat) < 2 \<and> SIGTERM \<noteq> UnhandledRejection
   \<and> fired (emit ''production'' SIGTERM ((initializeProcessHandlers ^^ 2) fresh_process))
       = [SigtermListener]
   \<and> exit_code (emit ''production'' SIGTERM ((initializeProcessHandlers ^^ 2) fresh_process))
       = Some 0
   \<and> fired (emit ''development'' UnhandledRejection ((initializeProcessHandlers ^^ 2) fresh_process))
       = [RejectionListener, RejectionListener]"
  using registration_accumulates [of SIGTERM 2 "''production''"]
        registration_accumulates [of UnhandledRejection 2 "''development''"]
  by (simp add: numeral_2_eq_2)

theorem registration_accumulates_counterexample:
  "initializeProcessHandlers (initializeProcessHandlers fresh_process)
     \<noteq> initializeProcessHandlers fresh_process
   \<and> listeners_of UnhandledRejection
       (initializeProcessHandlers (initializeProcessHandlers fresh_process))
       = [RejectionListener, RejectionListener]
   \<and> fired (emit ''production'' UnhandledRejection
              (initializeProcessHandlers (initializeProcessHandlers fresh_process)))
       = [RejectionListener, RejectionListener]
   \<and> timers (emit ''production'' UnhandledRejection
               (initializeProcessHandlers (initializeProcessHandlers fresh_process)))
       = [(1000, 1), (1000, 1)]"
  by (simp add: emit_def listeners_of_def handler_defs fresh_process_def run_listener_def)

text \<open>
  C4. Each of the eighteen variants of the table in section 4.1, constructed without an
  error code, has exactly the status and the code of its row, and marks itself
  operational; the message and the details are the caller's when the caller gives
  them. (No constructor of a variant takes a status.)
\<close>

theorem variant_defaults:
  "statusCode (construct v now stk msg None det) = fst (spec_default v)
   \<and> app_errorCode (construct v now stk msg None det) = snd (spec_default v)
   \<and> isOperational (construct v now stk msg None det)
   \<and> err_message (construct v now stk (Some m) None det) = m
   \<and> app_details (construct v now stk msg None det) = det"
  by (cases v) (simp_all add: exception_defs AppError_def or_default_def)

theorem variant_defaults_witness:
  "statusCode (construct Validation ''t'' ''s'' (Some ''Email is required'') None JUndefined) = 400
   \<and> app_errorCode (construct Validation ''t'' ''s'' (Some ''Email is required'') None JUndefined)
       = VAL_400
   \<and> err_message (construct Validation ''t'' ''s'' (Some ''Email is required'') None JUndefined)
       = ''Email is required''
   \<and> (statusCode (construct DatabaseConnection ''t'' ''s'' None None JUndefined),
      app_errorCode (construct DatabaseConnection ''t'' ''s'' None None JUndefined))
       = (503, DB_CONNECTION_ERROR)
   \<and> (statusCode (construct ExternalService ''t'' ''s'' None None JUndefined),
      app_errorCode (construct ExternalService ''t'' ''s'' None None JUndefined))
       = (502, EXT_API_ERROR)"
  using variant_defaults [of Validation "''t''" "''s''" "Some ''Email is required''" JUndefined
          "''Email is required''"]
        variant_defaults [of DatabaseConnection "''t''" "''s''" None JUndefined]
        variant_defaults [of ExternalService "''t''" "''s''" None JUndefined]
  by simp

text \<open>
  C5. For every controller and request: when the controller throws or its promise
  rejects, \<open>asyncHandler\<close> calls \<open>next\<close> with that very fault, once, after whatever the
  controller did itself, and changes nothing else; when the controller's promise
  resolves, the wrapper adds no call of \<open>next\<close>, whether or not a response was sent.
\<close>

theorem asyncHandler_forwards:
  "(ctrl req ex = (ex', Threw e) \<or> ctrl req ex = (ex', Rejected e)
      \<longrightarrow> next_calls (asyncHandler ctrl req ex) = next_calls ex' @ [Some e]
          \<and> length (next_calls (asyncHandler ctrl req ex)) = length (next_calls ex') + 1
          \<and> sent (asyncHandler ctrl req ex) = sent ex')
   \<and> (ctrl req ex = (ex', Resolved) \<longrightarrow> asyncHandler ctrl req ex = ex')"
  by (auto simp: asyncHandler_def)

theorem asyncHandler_forwards_witness:
  "next_calls (asyncHandler rejecting_controller nope_request \<lparr> sent = [], next_calls = [] \<rparr>)
     = [Some (internal_fault ''boom'')]
   \<and> next_calls (asyncHandler throwing_controller nope_request \<lparr> sent = [], next_calls = [] \<rparr>)
     = [Some (NonError (JStr ''boom''))]
   \<and> asyncHandler responding_controller nope_request \<lparr> sent = [], next_calls = [] \<rparr>
     = \<lparr> sent = [notFoundHandler ''t'' nope_request], next_calls = [] \<rparr>"
proof -
  let ?ex = "\<lparr> sent = [], next_calls = [] \<rparr>"
  let ?ex' = "\<lparr> sent = [notFoundHandler ''t'' nope_request], next_calls = [] \<rparr>"
  have 1: "rejecting_controller nope_request ?ex = (?ex', Rejected (internal_fault ''boom''))"
    by (simp add: rejecting_controller_def)
  have 2: "throwing_controller nope_request ?ex = (?ex, Threw (NonError (JStr ''boom'')))"
    by (simp add: throwing_controller_def)
  have 3: "responding_controller nope_request ?ex = (?ex', Resolved)"
    by (simp add: responding_controller_def)
  from asyncHandler_forwards [of rejecting_controller nope_request ?ex ?ex'
         "internal_fault ''boom''"] 1
       asyncHandler_forwards [of throwing_controller nope_request ?ex ?ex
         "NonError (JStr ''boom'')"] 2
       asyncHandler_forwards [of responding_controller nope_request ?ex ?ex']  3
  show ?thesis by simp
qed

text \<open>
  C6, as amended. When \<open>NODE_ENV\<close> is \<open>development\<close> and the fault is an \<open>Error\<close> with a
  non-empty stack, the details of the response are an object whose \<open>stack\<close> field is
  that stack. When \<open>NODE_ENV\<close> is anything else, not only \<open>production\<close>, the handler
  adds no stack field and the response does not depend on the fault's stack: the
  details are exactly those the cascade produced, so that a \<open>stack\<close> key is there only
  when the raiser put one into the details of an \<open>AppError\<close>, which the cascade passes
  on as they are.
\<close>

theorem stack_visibility:
  "(node_env = ''development'' \<and> is_Error err \<and> fault_stack err = Some s \<and> s \<noteq> []
      \<and> errorHandler node_env now err req = Inr r
    \<longrightarrow> (\<exists>ps. details (body r) = Some (JObj ps) \<and> map_of ps ''stack'' = Some (JStr s)))
   \<and> (node_env \<noteq> ''development''
    \<longrightarrow> errorHandler node_env now (set_stack st err) req = errorHandler node_env now err req)
   \<and> (node_env \<noteq> ''development'' \<and> errorHandler node_env now err req = Inr r
    \<longrightarrow> details (body r) = present (c_details (classify err))
        \<and> (has_stack_field (details (body r))
             \<longrightarrow> (\<exists>a. err = AppErr a \<and> has_stack_field (present (app_details a)))))"
proof (intro conjI impI)
  assume a: "node_env = ''development'' \<and> is_Error err \<and> fault_stack err = Some s \<and> s \<noteq> []
      \<and> errorHandler node_env now err req = Inr r"
  then have "details (body r) = with_stack node_env err (present (c_details (classify err)))"
    using errorHandler_Inr by blast
  with a show "\<exists>ps. details (body r) = Some (JObj ps) \<and> map_of ps ''stack'' = Some (JStr s)"
    by (simp add: with_stack_def map_of_set_prop)
next
  assume "node_env \<noteq> ''development''"
  then show "errorHandler node_env now (set_stack st err) req = errorHandler node_env now err req"
    by (rule errorHandler_set_stack)
next
  assume a: "node_env \<noteq> ''development'' \<and> errorHandler node_env now err req = Inr r"
  then show d: "details (body r) = present (c_details (classify err))"
    using errorHandler_Inr [of node_env now err req r] by (simp add: with_stack_off)
  assume "has_stack_field (details (body r))"
  with d show "\<exists>a. err = AppErr a \<and> has_stack_field (present (app_details a))"
    using classify_details_no_stack by simp
qed

theorem stack_visibility_witness:
  "errorHandler ''development'' ''2024-01-15T10:30:00.000Z'' duplicate_email_fault users_request
     = Inr \<lparr> status = 409,
             body = \<lparr> errorName = JStr ''MongoServerError'', errorCode = DB_DUPLICATE_KEY,
                      httpStatus = 409,
                      message = ''A resource with this value already exists'',
                      details = Some (JObj [(''duplicateFields'', JArr [JStr ''email'']),
                                            (''stack'', JStr ''MongoServerError: E11000 at insertOne (users.js:12)'')]),
                      timestamp = ''2024-01-15T10:30:00.000Z'',
                      path = ''/api/v1/users'' \<rparr> \<rparr>
   \<and> errorHandler ''test'' ''2024-01-15T10:30:00.000Z'' duplicate_email_fault users_request
     = Inr \<lparr> status = 409,
             body = \<lparr> errorName = JStr ''MongoServerError'', errorCode = DB_DUPLICATE_KEY,
                      httpStatus = 409,
                      message = ''A resource with this value already exists'',
                      details = Some (JObj [(''duplicateFields'', JArr [JStr ''email''])]),
                      timestamp = ''2024-01-15T10:30:00.000Z'',
                      path = ''/api/v1/users'' \<rparr> \<rparr>
   \<and> errorHandler ''test'' ''2024-01-15T10:30:00.000Z''
       (set_stack (Some ''elsewhere'') duplicate_email_fault) users_request
     = errorHandler ''test'' ''2024-01-15T10:30:00.000Z'' duplicate_email_fault users_request"
proof -
  let ?dev = "\<lparr> status = 409,
             body = \<lparr> errorName = JStr ''MongoServerError'', errorCode = DB_DUPLICATE_KEY,
                      httpStatus = 409,
                      message = ''A resource with this value already exists'',
                      details = Some (JObj [(''duplicateFields'', JArr [JStr ''email'']),
                                            (''stack'', JStr ''MongoServerError: E11000 at insertOne (users.js:12)'')]),
                      timestamp = ''2024-01-15T10:30:00.000Z'',
                      path = ''/api/v1/users'' \<rparr> \<rparr>"
  let ?test = "\<lparr> status = 409,
             body = \<lparr> errorName = JStr ''MongoServerError'', errorCode = DB_DUPLICATE_KEY,
                      httpStatus = 409,
                      message = ''A resource with this value already exists'',
                      details = Some (JObj [(''duplicateFields'', JArr [JStr ''email''])]),
                      timestamp = ''2024-01-15T10:30:00.000Z'',
                      path = ''/api/v1/users'' \<rparr> \<rparr>"
  have 1: "errorHandler ''development'' ''2024-01-15T10:30:00.000Z'' duplicate_email_fault
             users_request = Inr ?dev"
    by (simp add: errorHandler_def duplicate_email_fault_def users_request_def
        classify_foreign_def has_prop_def get_prop_def object_keys_def with_stack_def)
  have 2: "errorHandler ''test'' ''2024-01-15T10:30:00.000Z'' duplicate_email_fault
             users_request = Inr ?test"
    by (simp add: errorHandler_def duplicate_email_fault_def users_request_def
        classify_foreign_def has_prop_def get_prop_def object_keys_def with_stack_def)
  have 3: "''test'' \<noteq> ''development''" by simp
  from stack_visibility [of "''test''" duplicate_email_fault _ "''2024-01-15T10:30:00.000Z''"
         users_request _ "Some ''elsewhere''"] 1 2 3
  show ?thesis by simp
qed

theorem stack_visibility_counterexample:
  "errorHandler ''production'' ''2024-01-15T10:30:00.000Z''
     (AppErr (InternalServerException ''2024-01-15T10:30:00.000Z'' ''trace'' (Some ''Failed'') None
                (JObj [(''stack'', JStr ''at query (db.js:10)'')])))
     users_request
   = Inr \<lparr> status = 500,
           body = \<lparr> errorName = JStr ''InternalServerException'', errorCode = SRV_500,
                    httpStatus = 500, message = ''Failed'',
                    details = Some (JObj [(''stack'', JStr ''at query (db.js:10)'')]),
                    timestamp = ''2024-01-15T10:30:00.000Z'', path = ''/api/v1/users'' \<rparr> \<rparr>
   \<and> has_stack_field (Some (JObj [(''stack'', JStr ''at query (db.js:10)'')]))"
  by (simp add: errorHandler_def InternalServerException_def AppError_def or_default_def
      users_request_def with_stack_def has_stack_field_def has_prop_def)



text \<open>
  C8. For every request, \<open>notFoundHandler\<close> answers with status 404, the code \<open>USR_404\<close>
  (the specification's client-not-found) and the message "The requested endpoint
  METHOD URL was not found" built from the request's method and original URL.
\<close>

theorem notFoundHandler_response:
  "status (notFoundHandler now req) = 404
   \<and> httpStatus (body (notFoundHandler now req)) = 404
   \<and> errorCode (body (notFoundHandler now req)) = USR_404
   \<and> message (body (notFoundHandler now req)) =
       ''The requested endpoint '' @ req_method req @ '' '' @ originalUrl req @ '' was not found''
   \<and> details (body (notFoundHandler now req)) = None
   \<and> path (body (notFoundHandler now req)) = originalUrl req"
  by (simp add: notFoundHandler_def)

theorem notFoundHandler_response_witness:
  "httpStatus (body (notFoundHandler ''2024-01-15T10:30:00.000Z'' nope_request)) = 404
   \<and> errorCode (body (notFoundHandler ''2024-01-15T10:30:00.000Z'' nope_request)) = ''USR_404''
   \<and> message (body (notFoundHandler ''2024-01-15T10:30:00.000Z'' nope_request))
       = ''The requested endpoint GET /nope was not found''"
  using notFoundHandler_response [of "''2024-01-15T10:30:00.000Z''" nope_request]
  by (simp add: nope_request_def)

text \<open>
  C9, as amended. \<open>getEnv\<close> returns the variable's value when it is set and not
  empty, and throws when it is set to the empty string, whatever the default. For a
  key that is not the name of a member of \<open>Object.prototype\<close>, it returns the default
  when the variable is unset and the default not empty, and it throws exactly when the
  value chosen (the variable's if set, else the default) is absent or empty. For an
  unset key that is such a name (\<open>valueOf\<close>, \<open>toString\<close>, \<open>constructor\<close>, ...) the
  read finds the inherited member: \<open>getEnv\<close> returns it, ignores the default and does
  not throw.
\<close>

theorem getEnv_result:
  "(penv key = Some v \<and> v \<noteq> [] \<longrightarrow> snd (getEnv penv key dv) = Inr (EnvString v))
   \<and> (key \<notin> set object_prototype_members \<and> penv key = None \<and> dv = Some d \<and> d \<noteq> []
        \<longrightarrow> snd (getEnv penv key dv) = Inr (EnvString d))
   \<and> (key \<notin> set object_prototype_members
        \<longrightarrow> ((\<exists>e. snd (getEnv penv key dv) = Inl e)
              \<longleftrightarrow> (case penv key of Some x \<Rightarrow> Some x | None \<Rightarrow> dv) \<in> {None, Some []}))
   \<and> (penv key = Some [] \<longrightarrow>
        snd (getEnv penv key dv) = Inl (Error (''Missing env variable: '' @ key)))
   \<and> (key \<in> set object_prototype_members \<and> penv key = None
        \<longrightarrow> snd (getEnv penv key dv) = Inr (Inherited key))"
proof (intro conjI impI)
  assume "penv key = Some v \<and> v \<noteq> []"
  then show "snd (getEnv penv key dv) = Inr (EnvString v)"
    by (simp add: getEnv_def env_lookup_def Let_def)
next
  assume "key \<notin> set object_prototype_members \<and> penv key = None \<and> dv = Some d \<and> d \<noteq> []"
  then show "snd (getEnv penv key dv) = Inr (EnvString d)"
    by (simp add: getEnv_def env_lookup_def Let_def)
next
  assume k: "key \<notin> set object_prototype_members"
  show "(\<exists>e. snd (getEnv penv key dv) = Inl e)
        \<longleftrightarrow> (case penv key of Some x \<Rightarrow> Some x | None \<Rightarrow> dv) \<in> {None, Some []}"
  proof (cases "penv key")
    case None
    with k show ?thesis
      by (cases dv) (auto simp: getEnv_def env_lookup_def Let_def)
  next
    case (Some x)
    then show ?thesis
      by (auto simp: getEnv_def env_lookup_def Let_def)
  qed
next
  assume "penv key = Some []"
  then show "snd (getEnv penv key dv) = Inl (Error (''Missing env variable: '' @ key))"
    by (simp add: getEnv_def env_lookup_def Let_def)
next
  assume "key \<in> set object_prototype_members \<and> penv key = None"
  then show "snd (getEnv penv key dv) = Inr (Inherited key)"
    by (simp add: getEnv_def env_lookup_def Let_def)
qed

theorem getEnv_result_witness:
  "snd (getEnv [''PORT'' \<mapsto> ''9000''] ''PORT'' (Some ''8000'')) = Inr (EnvString ''9000'')
   \<and> ''PORT'' \<notin> set object_prototype_members
   \<and> snd (getEnv Map.empty ''PORT'' (Some ''8000'')) = Inr (EnvString ''8000'')
   \<and> snd (getEnv Map.empty ''JWT_SECRET'' None) = Inl (Error ''Missing env variable: JWT_SECRET'')
   \<and> snd (getEnv [''PORT'' \<mapsto> []] ''PORT'' (Some ''8000''))
       = Inl (Error ''Missing env variable: PORT'')
   \<and> ''toString'' \<in> set object_prototype_members
   \<and> snd (getEnv Map.empty ''toString'' None) = Inr (Inherited ''toString'')"
proof -
  have m: "''PORT'' \<notin> set object_prototype_members"
    "''JWT_SECRET'' \<notin> set object_prototype_members"
    "''toString'' \<in> set object_prototype_members"
    by (simp_all add: object_prototype_members_def)
  have e: "\<exists>e. snd (getEnv Map.empty ''JWT_SECRET'' None) = Inl e"
    using getEnv_result [of Map.empty "''JWT_SECRET''" _ None] m by simp
  then have j: "snd (getEnv Map.empty ''JWT_SECRET'' None)
                  = Inl (Error ''Missing env variable: JWT_SECRET'')"
    by (auto simp: getEnv_def env_lookup_def Let_def)
  from getEnv_result [of "[''PORT'' \<mapsto> ''9000'']" "''PORT''" "''9000''" "Some ''8000''" "''8000''"]
       getEnv_result [of "Map.empty" "''PORT''" "''9000''" "Some ''8000''" "''8000''"]
       getEnv_result [of "[''PORT'' \<mapsto> []]" "''PORT''" "''9000''" "Some ''8000''" "''8000''"]
       getEnv_result [of "Map.empty" "''toString''" _ None]
       m j
  show ?thesis by simp
qed

theorem getEnv_result_counterexample:
  "getEnv [''NODE_ENV'' \<mapsto> ''production''] ''valueOf'' (Some ''8000'')
     = ([], Inr (Inherited ''valueOf''))
   \<and> Inherited ''valueOf'' \<noteq> EnvString ''8000''
   \<and> getEnv [''NODE_ENV'' \<mapsto> ''production''] ''toString'' None
     = ([], Inr (Inherited ''toString''))"
  by (simp add: getEnv_def env_lookup_def object_prototype_members_def)

text \<open>
  C10. Whenever \<open>errorHandler\<close> sends a response, the status it sets equals the
  \<open>httpStatus\<close> of the body, and it sends one for every fault but a thrown \<open>null\<close> or
  \<open>undefined\<close>, on which reading the name throws; \<open>notFoundHandler\<close> keeps the two
  equal for every request.
\<close>

theorem status_consistent:
  "(errorHandler node_env now err req = Inr r \<longrightarrow> status r = httpStatus (body r))
   \<and> ((\<exists>r. errorHandler node_env now err req = Inr r)
        \<longleftrightarrow> err \<noteq> NonError JUndefined \<and> err \<noteq> NonError JNull)
   \<and> status (notFoundHandler now req) = httpStatus (body (notFoundHandler now req))"
  using errorHandler_Inr [of node_env now err req r] errorHandler_total [of node_env now err req]
  by (auto simp: notFoundHandler_def)

theorem status_consistent_witness:
  "errorHandler ''production'' ''2024-01-15T10:30:00.000Z''
     (AppErr (NotFoundException ''2024-01-15T10:30:00.000Z'' ''trace'' None None JUndefined))
     users_request
   = Inr \<lparr> status = 404,
           body = \<lparr> errorName = JStr ''NotFoundException'', errorCode = USR_404,
                    httpStatus = 404, message = ''The requested resource was not found'',
                    details = None, timestamp = ''2024-01-15T10:30:00.000Z'',
                    path = ''/api/v1/users'' \<rparr> \<rparr>
   \<and> status (notFoundHandler ''2024-01-15T10:30:00.000Z'' users_request) = 404"
proof -
  let ?r = "\<lparr> status = 404,
           body = \<lparr> errorName = JStr ''NotFoundException'', errorCode = USR_404,
                    httpStatus = 404, message = ''The requested resource was not found'',
                    details = None, timestamp = ''2024-01-15T10:30:00.000Z'',
                    path = ''/api/v1/users'' \<rparr> \<rparr>"
  have h: "errorHandler ''production'' ''2024-01-15T10:30:00.000Z''
     (AppErr (NotFoundException ''2024-01-15T10:30:00.000Z'' ''trace'' None None JUndefined))
     users_request = Inr ?r"
    by (simp add: errorHandler_def NotFoundException_def AppError_def or_default_def
        users_request_def with_stack_def)
  from status_consistent [of "''production''" "''2024-01-15T10:30:00.000Z''"
         "AppErr (NotFoundException ''2024-01-15T10:30:00.000Z'' ''trace'' None None JUndefined)"
         users_request ?r] h
  show ?thesis by (simp add: notFoundHandler_def)
qed

end
